theory Spec2Isabelle
  imports Main "HOL-Library.Word"
begin

unbundle bit_operations_syntax

section \<open>The syntax tree consumed by the emitter\<close>

text \<open>
  Modelled from the spec: the module \<^verbatim>\<open>ast.ts\<close>, which declares \<^verbatim>\<open>ProtoType\<close>,
  \<^verbatim>\<open>matchType\<close>, the six declaration kinds, \<^verbatim>\<open>ProtoFile\<close> and \<^verbatim>\<open>StreamingMode\<close>, is not
  among the sources; \<^verbatim>\<open>write.ts\<close> only imports it. The types below follow section 3 of the
  specification and the member accesses that \<^verbatim>\<open>write.ts\<close> performs on them.

  A type reference is a scalar name, a named reference, or a map whose key is a name that
  \<^verbatim>\<open>writeType\<close> interpolates directly and whose value is rendered recursively.
\<close>

datatype ProtoType = Scalar string | Ref string | Map string ProtoType

text \<open>
  JavaScript numbers that hold integers (field indices, enum values, reserved numbers) are
  \<^typ>\<open>int\<close>. \<^verbatim>\<open>Number.prototype.toString\<close> prints such a number in decimal, with a leading
  minus sign when negative (for magnitudes below \<open>10^21\<close>, where JavaScript switches to
  exponent notation).
\<close>

type_synonym number = int

definition digit :: "nat \<Rightarrow> char" where
  "digit n = ''0123456789'' ! n"

function nat_toString :: "nat \<Rightarrow> string" where
  "nat_toString n = (if n < 10 then [digit n] else nat_toString (n div 10) @ [digit (n mod 10)])"
  by pat_completeness auto
termination
  by (relation "measure id") auto

declare nat_toString.simps [simp del]

definition number_toString :: "number \<Rightarrow> string" where
  "number_toString i = (if i < 0 then ''-'' @ nat_toString (nat (- i)) else nat_toString (nat i))"

text \<open>
  Modelled from the spec: a reservation is a reserved field number, an inclusive range of
  numbers (a two-element array in the source), or a reserved name.
\<close>

datatype Reservation = ResNumber number | ResRange number number | ResName string

text \<open>
  \<^verbatim>\<open>v.toString()\<close> on a reservation entry: a number prints in decimal, a string is itself,
  and an array prints its elements separated by a comma.
\<close>

fun Reservation_toString :: "Reservation \<Rightarrow> string" where
  "Reservation_toString (ResNumber n) = number_toString n"
| "Reservation_toString (ResRange a b) = number_toString a @ '','' @ number_toString b"
| "Reservation_toString (ResName s) = s"

text \<open>
  Modelled from the spec: a file-level option value is a string or a number; booleans are
  included since the source stringifies every value that is not a string.
\<close>

datatype OptionValue = StringValue string | NumberValue number | BooleanValue bool

fun OptionValue_toString :: "OptionValue \<Rightarrow> string" where
  "OptionValue_toString (StringValue s) = s"
| "OptionValue_toString (NumberValue n) = number_toString n"
| "OptionValue_toString (BooleanValue b) = (if b then ''true'' else ''false'')"

text \<open>
  Modelled from the spec: \<^verbatim>\<open>StreamingMode\<close> is a bitmask with two independent bits. Its
  members \<^verbatim>\<open>StreamingMode.In\<close> and \<^verbatim>\<open>StreamingMode.Out\<close> are declared in \<^verbatim>\<open>ast.ts\<close>; their
  values are taken as a parameter of the emitter. The operator \<^verbatim>\<open>&\<close> of JavaScript
  works on 32-bit integers.
\<close>

record StreamingMode =
  StreamingMode_In :: "32 word"
  StreamingMode_Out :: "32 word"

text \<open>
  Modelled from the spec: the members of a field, an enum, a method and a service that
  \<^verbatim>\<open>write.ts\<close> reads. An absent \<^verbatim>\<open>repeated\<close> or \<^verbatim>\<open>allowAlias\<close> member is \<^const>\<open>False\<close>.
\<close>

record ProtoFieldDeclaration =
  field_name :: string
  field_repeated :: bool
  field_type :: ProtoType
  field_index :: number

record ProtoEnumDeclaration =
  enum_name :: string
  enum_allowAlias :: bool
  enum_variants :: "(string \<times> number) list"

record ProtoMethodDeclaration =
  method_name :: string
  method_stream :: "32 word"
  method_input :: ProtoType
  method_returns :: ProtoType

record ProtoServiceDeclaration =
  service_name :: string
  service_operations :: "ProtoMethodDeclaration list"

text \<open>
  Modelled from the spec: the tagged union \<^verbatim>\<open>ProtoDeclaration\<close> is closed over six kinds,
  here one constructor per value of \<^verbatim>\<open>decl.kind\<close>.
  Messages and oneofs nest declarations, so they are declared together with the union.
  An absent \<^verbatim>\<open>reservations\<close> member is \<^const>\<open>None\<close>.
\<close>

datatype ProtoDeclaration =
    Message ProtoMessageDeclaration
  | Service ProtoServiceDeclaration
  | Field ProtoFieldDeclaration
  | OneOf ProtoOneOfDeclaration
  | Enum ProtoEnumDeclaration
  | Method ProtoMethodDeclaration
and ProtoMessageDeclaration =
    ProtoMessageDeclaration
      (message_name: string)
      (message_declarations: "ProtoDeclaration list")
      (message_reservations: "Reservation list option")
and ProtoOneOfDeclaration =
    ProtoOneOfDeclaration
      (oneof_name: string)
      (oneof_declarations: "ProtoDeclaration list")

text \<open>
  Modelled from the spec: a file has an optional package name, import paths in order, a
  mapping of option names to values and the top-level declarations in order.
  \<^verbatim>\<open>Object.entries(file.options)\<close> lists the options in a fixed order, so the options are
  the association list of those entries. Whatever else the file object carries is the
  extension of the record.
\<close>

record ProtoFile =
  file_package :: "string option"
  file_imports :: "string list"
  file_options :: "(string \<times> OptionValue) list"
  file_declarations :: "ProtoDeclaration list"

section \<open>Line-stream utilities\<close>

text \<open>An iterable of lines is the list of the items it yields, in order.\<close>

abbreviation NL :: char where
  "NL \<equiv> CHR 0x0A"

text \<open>\<^verbatim>\<open>Array.prototype.join\<close> on an array of strings.\<close>

fun join :: "string \<Rightarrow> string list \<Rightarrow> string" where
  "join sep [] = []"
| "join sep [x] = x"
| "join sep (x # y # ys) = x @ sep @ join sep (y # ys)"

text \<open>
  \<^verbatim>\<open>indent(it, depth = 2)\<close>: an omitted depth is \<^const>\<open>None\<close>. The depth is a count of
  spaces for \<^verbatim>\<open>" ".repeat(depth)\<close>.
\<close>

fun indent :: "string list \<Rightarrow> nat option \<Rightarrow> string list" where
  "indent [] depth = []"
| "indent (v # it) depth =
     (if v \<noteq> [] then (replicate (case depth of None \<Rightarrow> 2 | Some d \<Rightarrow> d) CHR '' '' @ v) # indent it depth
      else v # indent it depth)"

text \<open>
  \<^verbatim>\<open>flatMap\<close>: the callback returns either one item or an iterable of items; the source
  tells them apart at run time (a string is not an object, a generator is iterable).
\<close>

datatype 'b flat_result = Item 'b | Items "'b list"

fun flatMap :: "'a list \<Rightarrow> ('a \<Rightarrow> 'b flat_result) \<Rightarrow> 'b list" where
  "flatMap [] f = []"
| "flatMap (v # it) f =
     (case f v of
        Items result \<Rightarrow> result @ flatMap it f
      | Item result \<Rightarrow> result # flatMap it f)"

lemma flatMap_ext:
  "(\<And>v. v \<in> set it \<Longrightarrow> f v = g v) \<Longrightarrow> flatMap it f = flatMap it g"
  by (induction it) (simp_all split: flat_result.split)

lemma flatMap_cong [fundef_cong]:
  "it = it' \<Longrightarrow> (\<And>v. v \<in> set it' \<Longrightarrow> f v = g v) \<Longrightarrow> flatMap it f = flatMap it' g"
  using flatMap_ext [of it' f g] by simp

definition collect :: "'a list \<Rightarrow> 'a list" where
  "collect it = it"

text \<open>
  \<^verbatim>\<open>selectMap\<close>: the result starts with an empty array under every key of the delegates
  and each source item is pushed, mapped, onto the array its selector names. The keys are
  the type \<open>'k\<close>; the source's type of \<^verbatim>\<open>select\<close> makes it return one of them.
\<close>

definition selectMap :: "'a list \<Rightarrow> ('a \<Rightarrow> 'k) \<Rightarrow> ('k \<Rightarrow> 'a \<Rightarrow> 'r) \<Rightarrow> ('k \<Rightarrow> 'r list)" where
  "selectMap source select delegates =
     fold (\<lambda>v result. let k = select v in result(k := result k @ [delegates k v])) source (\<lambda>k. [])"

section \<open>The emitter\<close>

definition PROTO_HEADER :: string where
  \<open>PROTO_HEADER = ''/* Generated by Microsoft TypeSpec */'' @ [NL] @ [NL] @ ''syntax = "proto3";'' @ [NL]\<close>

fun writeType :: "ProtoType \<Rightarrow> string" where
  "writeType (Map k v) = ''map<'' @ k @ '', '' @ writeType v @ ''>''"
| "writeType (Ref r) = r"
| "writeType (Scalar s) = s"

definition writeField :: "ProtoFieldDeclaration \<Rightarrow> string" where
  "writeField decl =
     (let prefix = (if field_repeated decl then ''repeated '' else '''')
      in prefix @ (writeType (field_type decl) @ '' '' @ field_name decl @ '' = ''
                   @ number_toString (field_index decl) @ '';''))"

definition writeMethod :: "StreamingMode \<Rightarrow> ProtoMethodDeclaration \<Rightarrow> string" where
  "writeMethod sm decl =
     (let streams = map (\<lambda>v. if v \<noteq> 0 then ''stream '' else '''')
                      [method_stream decl AND StreamingMode_In sm,
                       method_stream decl AND StreamingMode_Out sm];
          inStream = streams ! 0;
          outStream = streams ! 1
      in ''rpc '' @ method_name decl @ ''('' @ inStream @ writeType (method_input decl)
         @ '') returns ('' @ outStream @ writeType (method_returns decl) @ '');'')"

definition writeService :: "StreamingMode \<Rightarrow> ProtoServiceDeclaration \<Rightarrow> string list" where
  "writeService sm decl =
     (let head = ''service '' @ service_name decl @ '' {'';
          tail = ''}''
      in if length (service_operations decl) > 0
         then [head] @ indent (flatMap (service_operations decl) (\<lambda>d. Item (writeMethod sm d))) None @ [tail]
         else [head @ tail])"

definition writeEnum :: "ProtoEnumDeclaration \<Rightarrow> string list" where
  "writeEnum decl =
     [''enum '' @ enum_name decl @ '' {'']
     @ (if enum_allowAlias decl
        then [''  option allow_alias = true;''] @ (if length (enum_variants decl) > 0 then [''''] else [])
        else [])
     @ indent (flatMap (enum_variants decl)
                 (\<lambda>(name, idx). Item (name @ '' = '' @ number_toString idx @ '';''))) None
     @ [''}'']"

datatype ReservationSelector = reservedNumbers | reservedNames

definition writeReservations :: "ProtoMessageDeclaration \<Rightarrow> string list" where
  \<open>writeReservations decl =
     (let selected = selectMap
            (case message_reservations decl of None \<Rightarrow> [] | Some rs \<Rightarrow> rs)
            (\<lambda>v. case v of ResName _ \<Rightarrow> reservedNames | _ \<Rightarrow> reservedNumbers)
            (\<lambda>k. case k of
                reservedNumbers \<Rightarrow>
                  (\<lambda>v. case v of
                     ResRange a b \<Rightarrow> number_toString a @ '' to '' @ number_toString b
                   | _ \<Rightarrow> Reservation_toString v)
              | reservedNames \<Rightarrow> (\<lambda>v. ''"'' @ Reservation_toString v @ ''"''));
          numbers = selected reservedNumbers;
          names = selected reservedNames
      in if length numbers + length names > 0
         then (if length numbers > 0 then [''reserved '' @ join '', '' numbers @ '';''] else [])
              @ (if length names > 0 then [''reserved '' @ join '', '' names @ '';''] else [])
              @ ['''']
         else [])\<close>

fun writeDeclaration :: "StreamingMode \<Rightarrow> ProtoDeclaration \<Rightarrow> string list"
  and writeMessage :: "StreamingMode \<Rightarrow> ProtoMessageDeclaration \<Rightarrow> string list"
  and writeOneOf :: "StreamingMode \<Rightarrow> ProtoOneOfDeclaration \<Rightarrow> string list" where
  "writeDeclaration sm decl =
     (case decl of
        Message d \<Rightarrow> writeMessage sm d
      | Service d \<Rightarrow> writeService sm d
      | Field d \<Rightarrow> [writeField d]
      | OneOf d \<Rightarrow> writeOneOf sm d
      | Enum d \<Rightarrow> writeEnum d
      | Method d \<Rightarrow> [writeMethod sm d])"
| "writeMessage sm (ProtoMessageDeclaration name declarations reservations) =
     (let head = ''message '' @ name @ '' {'';
          tail = ''}''
      in if length declarations > 0
            \<or> (case reservations of None \<Rightarrow> False | Some rs \<Rightarrow> length rs \<noteq> 0)
         then [head]
              @ indent (writeReservations (ProtoMessageDeclaration name declarations reservations)) None
              @ indent (flatMap declarations (\<lambda>d. Items (writeDeclaration sm d))) None
              @ [tail]
         else [head @ tail])"
| "writeOneOf sm (ProtoOneOfDeclaration name declarations) =
     [''oneof '' @ name @ '' {'']
     @ indent (flatMap declarations (\<lambda>d. Items (writeDeclaration sm d))) None
     @ [''}'']"

definition writeProtoFile :: "StreamingMode \<Rightarrow> 'a ProtoFile_scheme \<Rightarrow> string" where
  \<open>writeProtoFile sm file =
     (let result = PROTO_HEADER;
          result = (case file_package file of
                      None \<Rightarrow> result
                    | Some p \<Rightarrow> if p \<noteq> [] then result @ [NL] @ ''package '' @ p @ '';'' @ [NL] else result);
          result = fold (\<lambda>import result. result @ [NL] @ ''import "'' @ import @ ''";'')
                     (file_imports file) result;
          result = (if length (file_imports file) > 0 then result @ [NL] else result);
          opts = file_options file;
          result = fold (\<lambda>(name, valueData) result.
                      let v = (case valueData of
                                 StringValue s \<Rightarrow> ''"'' @ s @ ''"''
                               | _ \<Rightarrow> OptionValue_toString valueData)
                      in result @ [NL] @ ''option ('' @ name @ '') = '' @ v)
                     opts result;
          result = (if length opts > 0 then result @ [NL] else result);
          result = fold (\<lambda>decl result.
                      result @ [NL] @ join [NL] (collect (writeDeclaration sm decl)) @ [NL])
                     (file_declarations file) result
      in result)\<close>

section \<open>The reservation renderer as the specification words it\<close>

text \<open>
  The specification describes the reservation renderer by two buckets: the numeric
  entries, a single number as \<^verbatim>\<open>N\<close> and a range as \<^verbatim>\<open>N to M\<close>, and the names, quoted; each
  bucket keeps the relative order of the input. One \<^verbatim>\<open>reserved\<close> statement per non-empty
  bucket, numbers first, then one blank line if anything was emitted.
\<close>

fun numeric_entry :: "Reservation \<Rightarrow> string option" where
  "numeric_entry (ResNumber n) = Some (number_toString n)"
| "numeric_entry (ResRange n m) = Some (number_toString n @ '' to '' @ number_toString m)"
| "numeric_entry (ResName s) = None"

fun name_entry :: "Reservation \<Rightarrow> string option" where
  \<open>name_entry (ResName s) = Some (''"'' @ s @ ''"'')\<close>
| "name_entry (ResNumber n) = None"
| "name_entry (ResRange n m) = None"

definition reserved_statement :: "string list \<Rightarrow> string list" where
  "reserved_statement bucket =
     (if bucket = [] then [] else [''reserved '' @ join '', '' bucket @ '';''])"

definition reservation_lines :: "Reservation list \<Rightarrow> string list" where
  "reservation_lines rs =
     (let numbers = List.map_filter numeric_entry rs;
          names = List.map_filter name_entry rs
      in reserved_statement numbers @ reserved_statement names
         @ (if numbers = [] \<and> names = [] then [] else ['''']))"

section \<open>The canonical output form as the specification words it\<close>

text \<open>
  The specification gives the output as the concatenation, in this order, of the header,
  the package statement, the import statements, the option statements and the
  declaration blocks. Each part below is a function of one member of the file only.
\<close>

definition package_text :: "string option \<Rightarrow> string" where
  "package_text package =
     (case package of
        None \<Rightarrow> []
      | Some p \<Rightarrow> if p = [] then [] else [NL] @ ''package '' @ p @ '';'' @ [NL])"

definition import_statement :: "string \<Rightarrow> string" where
  \<open>import_statement path = ''import "'' @ path @ ''";''\<close>

definition imports_text :: "string list \<Rightarrow> string" where
  "imports_text paths =
     concat (map (\<lambda>path. [NL] @ import_statement path) paths) @ (if paths = [] then [] else [NL])"

fun option_value :: "OptionValue \<Rightarrow> string" where
  \<open>option_value (StringValue s) = ''"'' @ s @ ''"''\<close>
| "option_value (NumberValue n) = number_toString n"
| "option_value (BooleanValue b) = (if b then ''true'' else ''false'')"

definition option_statement :: "string \<Rightarrow> OptionValue \<Rightarrow> string" where
  "option_statement name v = ''option ('' @ name @ '') = '' @ option_value v"

definition options_text :: "(string \<times> OptionValue) list \<Rightarrow> string" where
  "options_text opts =
     concat (map (\<lambda>(name, v). [NL] @ option_statement name v) opts) @ (if opts = [] then [] else [NL])"

definition declarations_text :: "StreamingMode \<Rightarrow> ProtoDeclaration list \<Rightarrow> string" where
  "declarations_text sm decls =
     concat (map (\<lambda>decl. [NL] @ join [NL] (writeDeclaration sm decl) @ [NL]) decls)"

text \<open>
  A text ends with exactly one newline when its last character is a newline and the
  character before it is not: the next line written after it is not preceded by a blank
  line of the text's own.
\<close>

definition ends_with_one_newline :: "string \<Rightarrow> bool" where
  "ends_with_one_newline s =
     (case rev s of
        a # b # _ \<Rightarrow> a = NL \<and> b \<noteq> NL
      | _ \<Rightarrow> False)"

section \<open>Facts about the line-stream utilities\<close>

lemma indent_map:
  "indent it depth =
     map (\<lambda>v. if v = [] then [] else replicate (case depth of None \<Rightarrow> 2 | Some d \<Rightarrow> d) CHR '' '' @ v) it"
  by (induction it) simp_all

lemma indent_append: "indent (xs @ ys) depth = indent xs depth @ indent ys depth"
  by (simp add: indent_map)

lemma flatMap_Item: "flatMap it (\<lambda>v. Item (f v)) = map f it"
  by (induction it) simp_all

lemma flatMap_Items: "flatMap it (\<lambda>v. Items (f v)) = concat (map f it)"
  by (induction it) simp_all

lemma flatMap_append: "flatMap (xs @ ys) f = flatMap xs f @ flatMap ys f"
  by (induction xs) (simp_all split: flat_result.split)

lemma writeMethod_eq:
  "writeMethod sm d =
     ''rpc '' @ method_name d @ ''(''
     @ (if method_stream d AND StreamingMode_In sm \<noteq> 0 then ''stream '' else '''')
     @ writeType (method_input d) @ '') returns (''
     @ (if method_stream d AND StreamingMode_Out sm \<noteq> 0 then ''stream '' else '''')
     @ writeType (method_returns d) @ '');''"
  by (simp add: writeMethod_def Let_def)

section \<open>Methods\<close>

text \<open>
  Claim C1. A method declaration renders as exactly one line, which the dispatcher yields
  unchanged: \<^verbatim>\<open>rpc M(X) returns (Y);\<close> where the input is prefixed with \<^verbatim>\<open>stream \<close> iff
  the input-streaming bit of the method's bitmask is set, and the return type is prefixed
  with \<^verbatim>\<open>stream \<close> iff the output-streaming bit is set. When the two masks are distinct
  non-zero bits, the bitmasks \<open>0\<close>, \<open>In\<close>, \<open>Out\<close> and \<open>In OR Out\<close> give the four
  combinations.
\<close>

theorem writeMethod_streaming:
  "writeDeclaration sm (Method d) = [writeMethod sm d]
   \<and> writeMethod sm d =
       ''rpc '' @ method_name d @ ''(''
       @ (if method_stream d AND StreamingMode_In sm \<noteq> 0 then ''stream '' else '''')
       @ writeType (method_input d) @ '') returns (''
       @ (if method_stream d AND StreamingMode_Out sm \<noteq> 0 then ''stream '' else '''')
       @ writeType (method_returns d) @ '');''
   \<and> (StreamingMode_In sm \<noteq> 0 \<and> StreamingMode_Out sm \<noteq> 0
        \<and> StreamingMode_In sm AND StreamingMode_Out sm = 0 \<longrightarrow>
        writeMethod sm (d\<lparr>method_stream := 0\<rparr>) =
          ''rpc '' @ method_name d @ ''('' @ writeType (method_input d)
          @ '') returns ('' @ writeType (method_returns d) @ '');''
      \<and> writeMethod sm (d\<lparr>method_stream := StreamingMode_In sm\<rparr>) =
          ''rpc '' @ method_name d @ ''(stream '' @ writeType (method_input d)
          @ '') returns ('' @ writeType (method_returns d) @ '');''
      \<and> writeMethod sm (d\<lparr>method_stream := StreamingMode_Out sm\<rparr>) =
          ''rpc '' @ method_name d @ ''('' @ writeType (method_input d)
          @ '') returns (stream '' @ writeType (method_returns d) @ '');''
      \<and> writeMethod sm (d\<lparr>method_stream := StreamingMode_In sm OR StreamingMode_Out sm\<rparr>) =
          ''rpc '' @ method_name d @ ''(stream '' @ writeType (method_input d)
          @ '') returns (stream '' @ writeType (method_returns d) @ '');'')"
proof (intro conjI impI)
  show "writeDeclaration sm (Method d) = [writeMethod sm d]"
    by simp
  show "writeMethod sm d =
       ''rpc '' @ method_name d @ ''(''
       @ (if method_stream d AND StreamingMode_In sm \<noteq> 0 then ''stream '' else '''')
       @ writeType (method_input d) @ '') returns (''
       @ (if method_stream d AND StreamingMode_Out sm \<noteq> 0 then ''stream '' else '''')
       @ writeType (method_returns d) @ '');''"
    by (rule writeMethod_eq)
next
  assume indep: "StreamingMode_In sm \<noteq> 0 \<and> StreamingMode_Out sm \<noteq> 0
        \<and> StreamingMode_In sm AND StreamingMode_Out sm = 0"
  then have io: "StreamingMode_In sm AND StreamingMode_Out sm = 0"
    and oi: "StreamingMode_Out sm AND StreamingMode_In sm = 0"
    by (simp_all add: and.commute)
  have in_or: "(StreamingMode_In sm OR StreamingMode_Out sm) AND StreamingMode_In sm = StreamingMode_In sm"
    by (auto simp add: bit_eq_iff bit_and_iff bit_or_iff)
  have out_or: "(StreamingMode_In sm OR StreamingMode_Out sm) AND StreamingMode_Out sm = StreamingMode_Out sm"
    by (auto simp add: bit_eq_iff bit_and_iff bit_or_iff)
  show "writeMethod sm (d\<lparr>method_stream := 0\<rparr>) =
          ''rpc '' @ method_name d @ ''('' @ writeType (method_input d)
          @ '') returns ('' @ writeType (method_returns d) @ '');''"
    by (simp add: writeMethod_eq)
  show "writeMethod sm (d\<lparr>method_stream := StreamingMode_In sm\<rparr>) =
          ''rpc '' @ method_name d @ ''(stream '' @ writeType (method_input d)
          @ '') returns ('' @ writeType (method_returns d) @ '');''"
    using indep io by (simp add: writeMethod_eq)
  show "writeMethod sm (d\<lparr>method_stream := StreamingMode_Out sm\<rparr>) =
          ''rpc '' @ method_name d @ ''('' @ writeType (method_input d)
          @ '') returns (stream '' @ writeType (method_returns d) @ '');''"
    using indep oi by (simp add: writeMethod_eq)
  show "writeMethod sm (d\<lparr>method_stream := StreamingMode_In sm OR StreamingMode_Out sm\<rparr>) =
          ''rpc '' @ method_name d @ ''(stream '' @ writeType (method_input d)
          @ '') returns (stream '' @ writeType (method_returns d) @ '');''"
    using indep in_or out_or by (simp add: writeMethod_eq)
qed

theorem writeMethod_streaming_witness:
  "writeMethod \<lparr>StreamingMode_In = 2, StreamingMode_Out = 1\<rparr>
     \<lparr>method_name = ''M'', method_stream = 0, method_input = Ref ''X'', method_returns = Ref ''Y''\<rparr>
     = ''rpc M(X) returns (Y);''
   \<and> writeMethod \<lparr>StreamingMode_In = 2, StreamingMode_Out = 1\<rparr>
     \<lparr>method_name = ''M'', method_stream = 2, method_input = Ref ''X'', method_returns = Ref ''Y''\<rparr>
     = ''rpc M(stream X) returns (Y);''
   \<and> writeMethod \<lparr>StreamingMode_In = 2, StreamingMode_Out = 1\<rparr>
     \<lparr>method_name = ''M'', method_stream = 1, method_input = Ref ''X'', method_returns = Ref ''Y''\<rparr>
     = ''rpc M(X) returns (stream Y);''
   \<and> writeMethod \<lparr>StreamingMode_In = 2, StreamingMode_Out = 1\<rparr>
     \<lparr>method_name = ''M'', method_stream = 3, method_input = Ref ''X'', method_returns = Ref ''Y''\<rparr>
     = ''rpc M(stream X) returns (stream Y);''"
  using writeMethod_streaming [of "\<lparr>StreamingMode_In = 2, StreamingMode_Out = 1\<rparr>"
      "\<lparr>method_name = ''M'', method_stream = 0, method_input = Ref ''X'', method_returns = Ref ''Y''\<rparr>"]
  by simp

section \<open>Indentation\<close>

text \<open>
  Claim C9. For every sequence of lines and every depth, \<^verbatim>\<open>indent\<close> prefixes each non-empty
  line with exactly that many spaces (two when the depth is omitted) and passes empty lines
  through unchanged; hence under \<open>k\<close> nested applications a non-empty line carries \<open>k\<close>
  times the depth in spaces and an empty line stays empty.
\<close>

theorem indent_lines:
  "indent it depth =
     map (\<lambda>v. if v = '''' then '''' else replicate (case depth of None \<Rightarrow> 2 | Some d \<Rightarrow> d) CHR '' '' @ v) it
   \<and> ((\<lambda>lines. indent lines depth) ^^ k) it =
     map (\<lambda>v. if v = '''' then '''' else replicate (k * (case depth of None \<Rightarrow> 2 | Some d \<Rightarrow> d)) CHR '' '' @ v) it"
proof
  show "indent it depth =
     map (\<lambda>v. if v = '''' then '''' else replicate (case depth of None \<Rightarrow> 2 | Some d \<Rightarrow> d) CHR '' '' @ v) it"
    by (rule indent_map)
  show "((\<lambda>lines. indent lines depth) ^^ k) it =
     map (\<lambda>v. if v = '''' then '''' else replicate (k * (case depth of None \<Rightarrow> 2 | Some d \<Rightarrow> d)) CHR '' '' @ v) it"
  proof (induction k)
    case 0
    show ?case by (simp add: map_idI)
  next
    case (Suc k)
    have "((\<lambda>lines. indent lines depth) ^^ Suc k) it
        = indent (((\<lambda>lines. indent lines depth) ^^ k) it) depth"
      by simp
    also have "\<dots> = indent (map (\<lambda>v. if v = [] then [] else replicate (k * (case depth of None \<Rightarrow> 2 | Some d \<Rightarrow> d)) CHR 0x20 @ v) it) depth"
      by (simp only: Suc.IH)
    also have "\<dots> = map (\<lambda>v. if v = [] then [] else replicate (Suc k * (case depth of None \<Rightarrow> 2 | Some d \<Rightarrow> d)) CHR 0x20 @ v) it"
      by (simp add: indent_map replicate_add)
    finally show ?case .
  qed
qed

theorem indent_lines_witness:
  "indent [''a'', '''', ''b {''] None = [''  a'', '''', ''  b {'']
   \<and> indent [''a'', '''', ''b {''] (Some 3) = [''   a'', '''', ''   b {'']
   \<and> ((\<lambda>lines. indent lines None) ^^ 3) [''a'', '''', ''b {''] = [''      a'', '''', ''      b {'']"
  using indent_lines [of "[''a'', '''', ''b {'']" None 3]
    indent_lines [of "[''a'', '''', ''b {'']" "Some 3" 0]
  by (simp add: eval_nat_numeral)

section \<open>Enumerations\<close>

text \<open>
  Claim C7. For an enum with the allow-alias flag set, the first line inside the body is
  the literal \<^verbatim>\<open>  option allow_alias = true;\<close>; a blank line follows it iff the enum has at
  least one variant; then each variant, in declared order and with duplicates kept, gives
  one line \<^verbatim>\<open>Name = Index;\<close> indented by two spaces.
\<close>

theorem writeEnum_allowAlias:
  "enum_allowAlias decl \<Longrightarrow>
   writeDeclaration sm (Enum decl) =
     [''enum '' @ enum_name decl @ '' {'', ''  option allow_alias = true;'']
     @ (if enum_variants decl = [] then [] else [''''])
     @ map (\<lambda>(name, idx). ''  '' @ name @ '' = '' @ number_toString idx @ '';'') (enum_variants decl)
     @ [''}'']"
proof -
  assume allow: "enum_allowAlias decl"
  show ?thesis
    using allow by (simp add: writeEnum_def flatMap_Item indent_map case_prod_unfold numeral_2_eq_2)
qed

theorem writeEnum_allowAlias_witness:
  "writeDeclaration \<lparr>StreamingMode_In = 2, StreamingMode_Out = 1\<rparr>
     (Enum \<lparr>enum_name = ''E'', enum_allowAlias = True, enum_variants = [(''B'', 1), (''A'', 0), (''C'', 1)]\<rparr>)
     = [''enum E {'', ''  option allow_alias = true;'', '''', ''  B = 1;'', ''  A = 0;'', ''  C = 1;'', ''}'']
   \<and> writeDeclaration \<lparr>StreamingMode_In = 2, StreamingMode_Out = 1\<rparr>
     (Enum \<lparr>enum_name = ''E'', enum_allowAlias = True, enum_variants = []\<rparr>)
     = [''enum E {'', ''  option allow_alias = true;'', ''}'']"
  using writeEnum_allowAlias [of "\<lparr>enum_name = ''E'', enum_allowAlias = True, enum_variants = [(''B'', 1), (''A'', 0), (''C'', 1)]\<rparr>"
      "\<lparr>StreamingMode_In = 2, StreamingMode_Out = 1\<rparr>"]
    writeEnum_allowAlias [of "\<lparr>enum_name = ''E'', enum_allowAlias = True, enum_variants = []\<rparr>"
      "\<lparr>StreamingMode_In = 2, StreamingMode_Out = 1\<rparr>"]
  by (simp add: number_toString_def nat_toString.simps digit_def)

section \<open>Messages\<close>

lemma writeField_not_empty: "writeField decl \<noteq> []"
  by (simp add: writeField_def Let_def)

text \<open>
  Claim C3. A message with no nested declarations and no reservations (absent or empty)
  renders as the single line \<^verbatim>\<open>message Name {}\<close>; the same message with exactly one field
  renders as three lines: \<^verbatim>\<open>message Name {\<close>, the field's line prefixed with two spaces,
  and \<^verbatim>\<open>}\<close>.
\<close>

theorem writeMessage_empty_body:
  "writeDeclaration sm (Message (ProtoMessageDeclaration name [] None)) = [''message '' @ name @ '' {}'']
   \<and> writeDeclaration sm (Message (ProtoMessageDeclaration name [] (Some []))) = [''message '' @ name @ '' {}'']
   \<and> writeDeclaration sm (Message (ProtoMessageDeclaration name [Field f] None)) =
       [''message '' @ name @ '' {'', ''  '' @ writeField f, ''}'']
   \<and> writeDeclaration sm (Message (ProtoMessageDeclaration name [Field f] (Some []))) =
       [''message '' @ name @ '' {'', ''  '' @ writeField f, ''}'']"
  by (simp add: writeReservations_def selectMap_def writeField_not_empty numeral_2_eq_2)

theorem writeMessage_empty_body_witness:
  "writeDeclaration \<lparr>StreamingMode_In = 2, StreamingMode_Out = 1\<rparr>
     (Message (ProtoMessageDeclaration ''Foo'' [] None)) = [''message Foo {}'']
   \<and> writeDeclaration \<lparr>StreamingMode_In = 2, StreamingMode_Out = 1\<rparr>
     (Message (ProtoMessageDeclaration ''Foo''
        [Field \<lparr>field_name = ''id'', field_repeated = True, field_type = Scalar ''int32'', field_index = 12\<rparr>]
        None)) = [''message Foo {'', ''  repeated int32 id = 12;'', ''}'']"
  using writeMessage_empty_body [of "\<lparr>StreamingMode_In = 2, StreamingMode_Out = 1\<rparr>" "''Foo''"
      "\<lparr>field_name = ''id'', field_repeated = True, field_type = Scalar ''int32'', field_index = 12\<rparr>"]
  by (simp add: writeField_def number_toString_def nat_toString.simps digit_def)

section \<open>Reservations\<close>

lemma selectMap_fold:
  "fold (\<lambda>v result. let k = select v in result(k := result k @ [delegates k v])) source acc
     = (\<lambda>k. acc k @ map (delegates k) (filter (\<lambda>v. select v = k) source))"
  by (induction source arbitrary: acc) (auto simp add: Let_def fun_eq_iff)

lemma selectMap_bucket:
  "selectMap source select delegates k = map (delegates k) (filter (\<lambda>v. select v = k) source)"
  by (simp add: selectMap_def selectMap_fold)

lemma reserved_numbers_bucket:
  \<open>selectMap rs
     (\<lambda>v. case v of ResName _ \<Rightarrow> reservedNames | _ \<Rightarrow> reservedNumbers)
     (\<lambda>k. case k of
         reservedNumbers \<Rightarrow>
           (\<lambda>v. case v of
              ResRange a b \<Rightarrow> number_toString a @ '' to '' @ number_toString b
            | _ \<Rightarrow> Reservation_toString v)
       | reservedNames \<Rightarrow> (\<lambda>v. ''"'' @ Reservation_toString v @ ''"''))
     reservedNumbers
   = List.map_filter numeric_entry rs\<close>
  unfolding selectMap_bucket
proof (induction rs)
  case Nil
  show ?case by (simp add: List.map_filter_simps)
next
  case (Cons r rs)
  then show ?case by (cases r) (simp_all add: List.map_filter_simps)
qed

lemma reserved_names_bucket:
  \<open>selectMap rs
     (\<lambda>v. case v of ResName _ \<Rightarrow> reservedNames | _ \<Rightarrow> reservedNumbers)
     (\<lambda>k. case k of
         reservedNumbers \<Rightarrow>
           (\<lambda>v. case v of
              ResRange a b \<Rightarrow> number_toString a @ '' to '' @ number_toString b
            | _ \<Rightarrow> Reservation_toString v)
       | reservedNames \<Rightarrow> (\<lambda>v. ''"'' @ Reservation_toString v @ ''"''))
     reservedNames
   = List.map_filter name_entry rs\<close>
  unfolding selectMap_bucket
proof (induction rs)
  case Nil
  show ?case by (simp add: List.map_filter_simps)
next
  case (Cons r rs)
  then show ?case by (cases r) (simp_all add: List.map_filter_simps)
qed

lemma writeReservations_eq:
  "writeReservations (ProtoMessageDeclaration name ds rs) =
     reservation_lines (case rs of None \<Rightarrow> [] | Some entries \<Rightarrow> entries)"
  unfolding writeReservations_def Let_def reserved_numbers_bucket reserved_names_bucket
  by (simp add: reservation_lines_def reserved_statement_def Let_def)

text \<open>
  Claim C4. The reservation renderer partitions the entries into the numeric bucket
  (\<^verbatim>\<open>N\<close>, or \<^verbatim>\<open>N to M\<close> for a range) and the name bucket (double-quoted), each in the
  input's relative order; it emits the numeric \<^verbatim>\<open>reserved\<close> line, then the name line, each
  only if its bucket is non-empty, then one blank line if a line was emitted. With no
  reservations (absent or empty) it emits nothing, and with at least one entry the blank
  line is emitted.
\<close>

theorem writeReservations_buckets:
  "writeReservations (ProtoMessageDeclaration name ds rs) =
     reservation_lines (case rs of None \<Rightarrow> [] | Some entries \<Rightarrow> entries)
   \<and> reservation_lines [] = []
   \<and> reservation_lines (e # es) \<noteq> []
   \<and> last (reservation_lines (e # es)) = ''''"
proof (intro conjI)
  show "writeReservations (ProtoMessageDeclaration name ds rs) =
     reservation_lines (case rs of None \<Rightarrow> [] | Some entries \<Rightarrow> entries)"
    by (rule writeReservations_eq)
  show "reservation_lines [] = []"
    by (simp add: reservation_lines_def reserved_statement_def List.map_filter_simps)
  have "List.map_filter numeric_entry (e # es) \<noteq> [] \<or> List.map_filter name_entry (e # es) \<noteq> []"
    by (cases e) (simp_all add: List.map_filter_simps)
  then show "reservation_lines (e # es) \<noteq> []" "last (reservation_lines (e # es)) = ''''"
    by (auto simp add: reservation_lines_def Let_def)
qed

theorem writeReservations_buckets_witness:
  \<open>writeReservations (ProtoMessageDeclaration ''M'' [] (Some [ResNumber 5, ResRange 10 12, ResName ''old_name'']))
     = [''reserved 5, 10 to 12;'', ''reserved "old_name";'', '''']
   \<and> writeReservations (ProtoMessageDeclaration ''M'' [] (Some [ResName ''b'', ResNumber 1, ResName ''a'']))
     = [''reserved 1;'', ''reserved "b", "a";'', '''']
   \<and> writeReservations (ProtoMessageDeclaration ''M'' [] (Some [ResName ''b'']))
     = [''reserved "b";'', '''']
   \<and> writeReservations (ProtoMessageDeclaration ''M'' [] None) = []\<close>
  using writeReservations_buckets [of "''M''" "[]" "Some [ResNumber 5, ResRange 10 12, ResName ''old_name'']"]
    writeReservations_buckets [of "''M''" "[]" "Some [ResName ''b'', ResNumber 1, ResName ''a'']"]
    writeReservations_buckets [of "''M''" "[]" "Some [ResName ''b'']"]
    writeReservations_buckets [of "''M''" "[]" None]
  by (simp add: reservation_lines_def reserved_statement_def List.map_filter_simps
      number_toString_def nat_toString.simps digit_def)

section \<open>Nested indentation\<close>

lemma writeMessage_lines:
  "ds \<noteq> [] \<Longrightarrow>
   writeMessage sm (ProtoMessageDeclaration name ds rs) =
     [''message '' @ name @ '' {'']
     @ indent (writeReservations (ProtoMessageDeclaration name ds rs)) None
     @ indent (concat (map (writeDeclaration sm) ds)) None
     @ [''}'']"
  by (simp add: flatMap_Items del: writeDeclaration.simps)

lemma writeOneOf_lines:
  "writeOneOf sm (ProtoOneOfDeclaration name ds) =
     [''oneof '' @ name @ '' {'']
     @ indent (concat (map (writeDeclaration sm) ds)) None
     @ [''}'']"
  by (simp add: flatMap_Items del: writeDeclaration.simps)

lemma writeDeclaration_Message: "writeDeclaration sm (Message d) = writeMessage sm d"
  by simp

lemma writeDeclaration_OneOf: "writeDeclaration sm (OneOf d) = writeOneOf sm d"
  by simp

lemma writeDeclaration_Field: "writeDeclaration sm (Field d) = [writeField d]"
  by simp

lemma writeField_Map_starts:
  "hd (writeField (fd\<lparr>field_type := Map k v\<rparr>)) \<noteq> CHR '' ''"
  by (simp add: writeField_def Let_def)

text \<open>
  Claim C6, as the source has it. A field inside a oneof inside a top-level message is
  indented by exactly four spaces: the lines of a top-level message start at column 0, so
  the oneof is one level deep and its fields two levels deep, two spaces each. The text of
  a map-typed field starts with \<^verbatim>\<open>repeated\<close> or \<^verbatim>\<open>map<\<close>, not with a space, so the four
  spaces are the whole indentation.
\<close>

theorem oneof_field_indentation:
  "writeDeclaration sm
     (Message (ProtoMessageDeclaration name
        (before @ OneOf (ProtoOneOfDeclaration oname (fs1 @ Field fd # fs2)) # after) rs)) =
     [''message '' @ name @ '' {'']
     @ indent (writeReservations (ProtoMessageDeclaration name
        (before @ OneOf (ProtoOneOfDeclaration oname (fs1 @ Field fd # fs2)) # after) rs)) None
     @ indent (concat (map (writeDeclaration sm) before)) None
     @ [''  oneof '' @ oname @ '' {'']
     @ indent (indent (concat (map (writeDeclaration sm) fs1)) None) None
     @ [''    '' @ writeField fd]
     @ indent (indent (concat (map (writeDeclaration sm) fs2)) None) None
     @ [''  }'']
     @ indent (concat (map (writeDeclaration sm) after)) None
     @ [''}'']
   \<and> hd (writeField (fd\<lparr>field_type := Map k v\<rparr>)) \<noteq> CHR '' ''"
proof
  have oneof: "indent (writeOneOf sm (ProtoOneOfDeclaration oname (fs1 @ Field fd # fs2))) None =
      [''  oneof '' @ oname @ '' {'']
      @ indent (indent (concat (map (writeDeclaration sm) fs1)) None) None
      @ [''    '' @ writeField fd]
      @ indent (indent (concat (map (writeDeclaration sm) fs2)) None) None
      @ [''  }'']"
    by (simp add: writeOneOf_lines indent_append writeField_not_empty numeral_2_eq_2
        writeDeclaration_Field del: writeOneOf.simps writeDeclaration.simps)
  have "writeDeclaration sm
     (Message (ProtoMessageDeclaration name
        (before @ OneOf (ProtoOneOfDeclaration oname (fs1 @ Field fd # fs2)) # after) rs)) =
     [''message '' @ name @ '' {'']
     @ indent (writeReservations (ProtoMessageDeclaration name
        (before @ OneOf (ProtoOneOfDeclaration oname (fs1 @ Field fd # fs2)) # after) rs)) None
     @ indent (concat (map (writeDeclaration sm) before)) None
     @ indent (writeOneOf sm (ProtoOneOfDeclaration oname (fs1 @ Field fd # fs2))) None
     @ indent (concat (map (writeDeclaration sm) after)) None
     @ [''}'']"
    by (simp add: writeDeclaration_Message writeDeclaration_OneOf writeMessage_lines indent_append
        del: writeMessage.simps writeOneOf.simps writeDeclaration.simps)
  then show "writeDeclaration sm
     (Message (ProtoMessageDeclaration name
        (before @ OneOf (ProtoOneOfDeclaration oname (fs1 @ Field fd # fs2)) # after) rs)) =
     [''message '' @ name @ '' {'']
     @ indent (writeReservations (ProtoMessageDeclaration name
        (before @ OneOf (ProtoOneOfDeclaration oname (fs1 @ Field fd # fs2)) # after) rs)) None
     @ indent (concat (map (writeDeclaration sm) before)) None
     @ [''  oneof '' @ oname @ '' {'']
     @ indent (indent (concat (map (writeDeclaration sm) fs1)) None) None
     @ [''    '' @ writeField fd]
     @ indent (indent (concat (map (writeDeclaration sm) fs2)) None) None
     @ [''  }'']
     @ indent (concat (map (writeDeclaration sm) after)) None
     @ [''}'']"
    by (simp only: oneof append_assoc)
  show "hd (writeField (fd\<lparr>field_type := Map k v\<rparr>)) \<noteq> CHR '' ''"
    by (rule writeField_Map_starts)
qed

theorem oneof_field_indentation_witness:
  "writeDeclaration \<lparr>StreamingMode_In = 2, StreamingMode_Out = 1\<rparr>
     (Message (ProtoMessageDeclaration ''M''
        [OneOf (ProtoOneOfDeclaration ''o''
           [Field \<lparr>field_name = ''f'', field_repeated = False,
                   field_type = Map ''string'' (Scalar ''int32''), field_index = 1\<rparr>])] None))
   = [''message M {'', ''  oneof o {'', ''    map<string, int32> f = 1;'', ''  }'', ''}'']"
  using oneof_field_indentation [of "\<lparr>StreamingMode_In = 2, StreamingMode_Out = 1\<rparr>" "''M''" "[]" "''o''" "[]"
      "\<lparr>field_name = ''f'', field_repeated = False,
         field_type = Map ''string'' (Scalar ''int32''), field_index = 1\<rparr>" "[]" "[]" None]
  by (simp add: writeReservations_eq reservation_lines_def reserved_statement_def List.map_filter_simps
      writeField_def number_toString_def nat_toString.simps digit_def del: writeDeclaration.simps)

text \<open>
  The claim as the specification states it, six spaces, fails: the field's line of this
  message carries four spaces, and no line of the output is the field's text behind six.
\<close>

theorem oneof_field_six_spaces_counterexample:
  "writeDeclaration \<lparr>StreamingMode_In = 2, StreamingMode_Out = 1\<rparr>
     (Message (ProtoMessageDeclaration ''M''
        [OneOf (ProtoOneOfDeclaration ''o''
           [Field \<lparr>field_name = ''f'', field_repeated = False,
                   field_type = Map ''string'' (Scalar ''int32''), field_index = 1\<rparr>])] None))
   = [''message M {'', ''  oneof o {'', ''    map<string, int32> f = 1;'', ''  }'', ''}'']
   \<and> (replicate 6 CHR '' '' @ writeField \<lparr>field_name = ''f'', field_repeated = False,
                   field_type = Map ''string'' (Scalar ''int32''), field_index = 1\<rparr>)
       \<notin> set (writeDeclaration \<lparr>StreamingMode_In = 2, StreamingMode_Out = 1\<rparr>
     (Message (ProtoMessageDeclaration ''M''
        [OneOf (ProtoOneOfDeclaration ''o''
           [Field \<lparr>field_name = ''f'', field_repeated = False,
                   field_type = Map ''string'' (Scalar ''int32''), field_index = 1\<rparr>])] None)))"
  by (simp add: writeReservations_eq reservation_lines_def reserved_statement_def List.map_filter_simps
      writeField_def number_toString_def nat_toString.simps digit_def numeral_2_eq_2 eval_nat_numeral)

section \<open>File assembly\<close>

lemma fold_appending:
  "(\<And>x r. step x r = r @ g x) \<Longrightarrow> fold step xs r0 = r0 @ concat (map g xs)"
  by (induction xs arbitrary: r0) simp_all

lemma option_value_eq:
  \<open>(case v of StringValue s \<Rightarrow> ''"'' @ s @ ''"'' | _ \<Rightarrow> OptionValue_toString v) = option_value v\<close>
  by (cases v) simp_all

lemma writeProtoFile_eq:
  "writeProtoFile sm file =
     PROTO_HEADER @ package_text (file_package file) @ imports_text (file_imports file)
     @ options_text (file_options file) @ declarations_text sm (file_declarations file)"
proof -
  have import_loop: \<open>\<And>r0. fold (\<lambda>import result. result @ [NL] @ ''import "'' @ import @ ''";'')
        (file_imports file) r0
      = r0 @ concat (map (\<lambda>path. [NL] @ import_statement path) (file_imports file))\<close>
    by (rule fold_appending) (simp add: import_statement_def)
  have option_loop: \<open>\<And>r0. fold (\<lambda>(name, valueData) result.
                      result @ [NL] @ ''option ('' @ name @ '') = ''
                        @ (case valueData of
                             StringValue s \<Rightarrow> ''"'' @ s @ ''"''
                           | _ \<Rightarrow> OptionValue_toString valueData))
        (file_options file) r0
      = r0 @ concat (map (\<lambda>(name, v). [NL] @ option_statement name v) (file_options file))\<close>
    by (rule fold_appending) (simp add: option_statement_def option_value_eq case_prod_unfold)
  have declaration_loop: "\<And>r0. fold (\<lambda>decl result.
                      result @ [NL] @ join [NL] (collect (writeDeclaration sm decl)) @ [NL])
        (file_declarations file) r0
      = r0 @ declarations_text sm (file_declarations file)"
    unfolding declarations_text_def
    by (rule fold_appending) (simp add: collect_def del: writeDeclaration.simps)
  show ?thesis
    unfolding writeProtoFile_def Let_def import_loop option_loop declaration_loop
    by (simp add: package_text_def imports_text_def options_text_def split: option.split)
qed

section \<open>Line ends\<close>

lemma digit_is_digit: "n < 10 \<Longrightarrow> digit n \<in> set ''0123456789''"
  unfolding digit_def by (rule nth_mem) simp

lemma nat_toString_last:
  "nat_toString n \<noteq> [] \<and> last (nat_toString n) \<in> set ''0123456789''"
proof (cases "n < 10")
  case True
  then show ?thesis
    using digit_is_digit [of n] by (simp add: nat_toString.simps [of n])
next
  case False
  then show ?thesis
    using digit_is_digit [of "n mod 10"] by (simp add: nat_toString.simps [of n])
qed

lemma number_toString_last:
  "number_toString i \<noteq> [] \<and> last (number_toString i) \<in> set ''0123456789''"
  using nat_toString_last [of "nat i"] nat_toString_last [of "nat (- i)"]
  by (simp add: number_toString_def)

lemma option_value_last:
  "option_value v \<noteq> [] \<and> last (option_value v) \<noteq> NL \<and> last (option_value v) \<noteq> CHR '';''"
proof (cases v)
  case (StringValue s)
  then show ?thesis by simp
next
  case (NumberValue n)
  then show ?thesis using number_toString_last [of n] by auto
next
  case (BooleanValue b)
  then show ?thesis by simp
qed

lemma option_statement_last:
  "option_statement name v \<noteq> [] \<and> last (option_statement name v) \<noteq> NL
   \<and> last (option_statement name v) \<noteq> CHR '';''"
  using option_value_last [of v] by (simp add: option_statement_def)

lemma ends_with_one_newline_append:
  "ends_with_one_newline u \<Longrightarrow> ends_with_one_newline (t @ u)"
  by (auto simp add: ends_with_one_newline_def split: list.splits)

lemma ends_with_one_newline_snoc:
  "ends_with_one_newline (w @ [c, NL]) = (c \<noteq> NL)"
  by (simp add: ends_with_one_newline_def)

lemma ends_with_one_newline_line:
  "s \<noteq> [] \<Longrightarrow> last s \<noteq> NL \<Longrightarrow> ends_with_one_newline (t @ s @ [NL])"
proof -
  assume ne: "s \<noteq> []" and l: "last s \<noteq> NL"
  obtain u c where s: "s = u @ [c]"
    using ne by (cases s rule: rev_cases) auto
  with l have "c \<noteq> NL" by simp
  then have "ends_with_one_newline ((t @ u) @ [c, NL])"
    by (simp add: ends_with_one_newline_snoc del: append_assoc)
  then show ?thesis unfolding s by simp
qed

lemma header_ends: "ends_with_one_newline PROTO_HEADER"
  by (simp add: PROTO_HEADER_def ends_with_one_newline_def)

lemma package_text_ends: "package_text p \<noteq> [] \<Longrightarrow> ends_with_one_newline (package_text p)"
  by (auto simp add: package_text_def ends_with_one_newline_def split: option.splits if_splits)

lemma imports_text_ends: "paths \<noteq> [] \<Longrightarrow> ends_with_one_newline (imports_text paths)"
proof -
  assume "paths \<noteq> []"
  then have paths: "paths = butlast paths @ [last paths]" by simp
  have "imports_text (butlast paths @ [last paths])
      = (concat (map (\<lambda>path. [NL] @ import_statement path) (butlast paths)) @ [NL])
        @ import_statement (last paths) @ [NL]"
    by (simp add: imports_text_def)
  moreover have "ends_with_one_newline
      ((concat (map (\<lambda>path. [NL] @ import_statement path) (butlast paths)) @ [NL])
        @ import_statement (last paths) @ [NL])"
    by (rule ends_with_one_newline_line) (simp_all add: import_statement_def)
  ultimately show ?thesis using paths by simp
qed

lemma options_text_ends: "opts \<noteq> [] \<Longrightarrow> ends_with_one_newline (options_text opts)"
proof -
  assume "opts \<noteq> []"
  then have opts: "opts = butlast opts @ [last opts]" by simp
  obtain name v where l: "last opts = (name, v)" by (cases "last opts")
  have "options_text (butlast opts @ [(name, v)])
      = (concat (map (\<lambda>(name, v). [NL] @ option_statement name v) (butlast opts)) @ [NL])
        @ option_statement name v @ [NL]"
    by (simp add: options_text_def)
  moreover have "ends_with_one_newline
      ((concat (map (\<lambda>(name, v). [NL] @ option_statement name v) (butlast opts)) @ [NL])
        @ option_statement name v @ [NL])"
    by (rule ends_with_one_newline_line) (simp_all add: option_statement_last)
  ultimately show ?thesis using opts l by simp
qed

lemma preamble_ends:
  "ends_with_one_newline (PROTO_HEADER @ package_text p @ imports_text paths @ options_text opts)"
proof (cases "opts = []")
  case False
  then have "ends_with_one_newline (options_text opts)" by (rule options_text_ends)
  then have "ends_with_one_newline ((PROTO_HEADER @ package_text p @ imports_text paths) @ options_text opts)"
    by (rule ends_with_one_newline_append)
  then show ?thesis by simp
next
  case True
  then have o: "options_text opts = []" by (simp add: options_text_def)
  show ?thesis
  proof (cases "paths = []")
    case False
    then have "ends_with_one_newline (imports_text paths)" by (rule imports_text_ends)
    then have "ends_with_one_newline ((PROTO_HEADER @ package_text p) @ imports_text paths)"
      by (rule ends_with_one_newline_append)
    with o show ?thesis by simp
  next
    case True
    then have i: "imports_text paths = []" by (simp add: imports_text_def)
    show ?thesis
    proof (cases "package_text p = []")
      case True
      with o i header_ends show ?thesis by simp
    next
      case False
      then have "ends_with_one_newline (package_text p)" by (rule package_text_ends)
      then have "ends_with_one_newline (PROTO_HEADER @ package_text p)"
        by (rule ends_with_one_newline_append)
      with o i show ?thesis by simp
    qed
  qed
qed

section \<open>Declaration blocks\<close>

lemma writeMethod_not_empty: "writeMethod sm d \<noteq> []"
  by (simp add: writeMethod_eq)

lemma writeDeclaration_block:
  "writeDeclaration sm decl \<noteq> []
   \<and> hd (writeDeclaration sm decl) \<noteq> []
   \<and> last (writeDeclaration sm decl) \<noteq> []"
proof (cases decl)
  case (Message m)
  then show ?thesis by (cases m) (simp add: Let_def)
next
  case (Service s)
  then show ?thesis by (simp add: writeService_def Let_def)
next
  case (Field f)
  then show ?thesis by (simp add: writeField_not_empty)
next
  case (OneOf p)
  then show ?thesis by (cases p) simp
next
  case (Enum e)
  then show ?thesis by (simp add: writeEnum_def)
next
  case (Method m)
  then show ?thesis by (simp add: writeMethod_not_empty)
qed

lemma join_snoc_blank:
  "xs \<noteq> [] \<Longrightarrow> join sep (xs @ [[]]) = join sep xs @ sep"
  by (induction sep xs rule: join.induct) simp_all

lemma join_append:
  "xs \<noteq> [] \<Longrightarrow> ys \<noteq> [] \<Longrightarrow> join sep (xs @ ys) = join sep xs @ sep @ join sep ys"
proof (induction sep xs rule: join.induct)
  case (1 sep)
  then show ?case by simp
next
  case (2 sep x)
  then show ?case by (cases ys) simp_all
next
  case (3 sep x y ys')
  then show ?case by simp
qed

lemma declarations_text_join:
  "declarations_text sm (d # ds) =
     [NL] @ join [NL] (concat (map (\<lambda>decl. writeDeclaration sm decl @ ['''']) (d # ds)))"
proof (induction ds arbitrary: d)
  case Nil
  have "writeDeclaration sm d \<noteq> []" using writeDeclaration_block [of sm d] by blast
  then show ?case
    by (simp add: declarations_text_def join_snoc_blank del: writeDeclaration.simps)
next
  case (Cons e es)
  have d: "writeDeclaration sm d @ [''''] \<noteq> []" by simp
  have rest: "concat (map (\<lambda>decl. writeDeclaration sm decl @ ['''']) (e # es)) \<noteq> []" by simp
  have wd: "writeDeclaration sm d \<noteq> []" using writeDeclaration_block [of sm d] by blast
  have "declarations_text sm (d # e # es)
      = [NL] @ join [NL] (writeDeclaration sm d) @ [NL] @ declarations_text sm (e # es)"
    by (simp add: declarations_text_def del: writeDeclaration.simps)
  also have "\<dots> = [NL] @ (join [NL] (writeDeclaration sm d @ ['''']))
      @ [NL] @ join [NL] (concat (map (\<lambda>decl. writeDeclaration sm decl @ ['''']) (e # es)))"
    using wd by (simp add: Cons.IH join_snoc_blank del: writeDeclaration.simps)
  also have "\<dots> = [NL] @ join [NL] ((writeDeclaration sm d @ [''''])
      @ concat (map (\<lambda>decl. writeDeclaration sm decl @ ['''']) (e # es)))"
    by (simp only: join_append [OF d rest])
  finally show ?case by (simp del: writeDeclaration.simps)
qed

text \<open>
  Claim C5. The file is the preamble (header, package, imports, options) followed, for
  each top-level declaration in order, by a newline, the declaration's lines joined with
  newlines, and a newline. Read as lines, what follows the preamble is the newline-join of
  the blocks with one empty line appended after each block. The preamble ends with exactly
  one newline, and no block is empty or begins or ends with an empty line; so exactly one
  blank line stands before the first block and between two consecutive blocks.
\<close>

theorem declaration_blocks_separated:
  "writeProtoFile sm file =
     (PROTO_HEADER @ package_text (file_package file) @ imports_text (file_imports file)
      @ options_text (file_options file))
     @ concat (map (\<lambda>decl. [NL] @ join [NL] (writeDeclaration sm decl) @ [NL]) (file_declarations file))
   \<and> concat (map (\<lambda>decl. [NL] @ join [NL] (writeDeclaration sm decl) @ [NL]) (d # ds)) =
       [NL] @ join [NL] (concat (map (\<lambda>decl. writeDeclaration sm decl @ ['''']) (d # ds)))
   \<and> ends_with_one_newline
       (PROTO_HEADER @ package_text (file_package file) @ imports_text (file_imports file)
        @ options_text (file_options file))
   \<and> writeDeclaration sm decl \<noteq> []
   \<and> hd (writeDeclaration sm decl) \<noteq> ''''
   \<and> last (writeDeclaration sm decl) \<noteq> ''''"
proof (intro conjI)
  show "writeProtoFile sm file =
     (PROTO_HEADER @ package_text (file_package file) @ imports_text (file_imports file)
      @ options_text (file_options file))
     @ concat (map (\<lambda>decl. [NL] @ join [NL] (writeDeclaration sm decl) @ [NL]) (file_declarations file))"
    by (simp add: writeProtoFile_eq declarations_text_def del: writeDeclaration.simps)
  show "concat (map (\<lambda>decl. [NL] @ join [NL] (writeDeclaration sm decl) @ [NL]) (d # ds)) =
       [NL] @ join [NL] (concat (map (\<lambda>decl. writeDeclaration sm decl @ ['''']) (d # ds)))"
    using declarations_text_join [of sm d ds] by (simp only: declarations_text_def)
  show "ends_with_one_newline
       (PROTO_HEADER @ package_text (file_package file) @ imports_text (file_imports file)
        @ options_text (file_options file))"
    by (rule preamble_ends)
  show "writeDeclaration sm decl \<noteq> []" "hd (writeDeclaration sm decl) \<noteq> ''''"
    "last (writeDeclaration sm decl) \<noteq> ''''"
    using writeDeclaration_block [of sm decl] by blast+
qed

theorem declaration_blocks_separated_witness:
  \<open>writeProtoFile \<lparr>StreamingMode_In = 2, StreamingMode_Out = 1\<rparr>
     \<lparr>file_package = None, file_imports = [], file_options = [],
      file_declarations = [Message (ProtoMessageDeclaration ''Foo'' [] None),
         Service \<lparr>service_name = ''S'', service_operations =
           [\<lparr>method_name = ''M'', method_stream = 1, method_input = Ref ''X'', method_returns = Ref ''Y''\<rparr>]\<rparr>]\<rparr>
   = ''/* Generated by Microsoft TypeSpec */'' @ [NL]
     @ [NL]
     @ ''syntax = "proto3";'' @ [NL]
     @ [NL]
     @ ''message Foo {}'' @ [NL]
     @ [NL]
     @ ''service S {'' @ [NL]
     @ ''  rpc M(X) returns (stream Y);'' @ [NL]
     @ ''}'' @ [NL]\<close>
  using declaration_blocks_separated [of "\<lparr>StreamingMode_In = 2, StreamingMode_Out = 1\<rparr>"
      "\<lparr>file_package = None, file_imports = [], file_options = [],
      file_declarations = [Message (ProtoMessageDeclaration ''Foo'' [] None),
         Service \<lparr>service_name = ''S'', service_operations =
           [\<lparr>method_name = ''M'', method_stream = 1, method_input = Ref ''X'', method_returns = Ref ''Y''\<rparr>]\<rparr>]\<rparr>"]
  by (simp add: PROTO_HEADER_def package_text_def imports_text_def options_text_def
      writeService_def writeMethod_eq numeral_2_eq_2)

section \<open>File-level options\<close>

text \<open>
  Claim C8. Each file-level option entry gives exactly one option statement, in the
  order of the entries; a string value is wrapped in double quotes and any other value is
  its \<^verbatim>\<open>toString()\<close>. When at least one option was emitted, the last option statement is
  followed by two newlines before the first declaration's first line, which is not empty:
  one blank line separates the options from the declarations.
\<close>

theorem file_options_statements:
  \<open>writeProtoFile sm file =
     PROTO_HEADER @ package_text (file_package file) @ imports_text (file_imports file)
     @ options_text (file_options file) @ declarations_text sm (file_declarations file)
   \<and> options_text [] = []
   \<and> options_text (opts @ [(name, v)]) =
       concat (map (\<lambda>(name, v). [NL] @ option_statement name v) opts)
       @ [NL] @ option_statement name v @ [NL]
   \<and> option_statement name v =
       ''option ('' @ name @ '') = ''
       @ (case v of StringValue s \<Rightarrow> ''"'' @ s @ ''"'' | _ \<Rightarrow> OptionValue_toString v)
   \<and> options_text (opts @ [(name, v)]) @ declarations_text sm (d # ds) =
       concat (map (\<lambda>(name, v). [NL] @ option_statement name v) opts)
       @ [NL] @ option_statement name v @ [NL]
       @ [NL] @ join [NL] (writeDeclaration sm d) @ [NL] @ declarations_text sm ds
   \<and> last (option_statement name v) \<noteq> NL
   \<and> hd (writeDeclaration sm d) \<noteq> ''''\<close>
proof (intro conjI)
  show "writeProtoFile sm file =
     PROTO_HEADER @ package_text (file_package file) @ imports_text (file_imports file)
     @ options_text (file_options file) @ declarations_text sm (file_declarations file)"
    by (rule writeProtoFile_eq)
  show "options_text [] = []"
    by (simp add: options_text_def)
  show "options_text (opts @ [(name, v)]) =
       concat (map (\<lambda>(name, v). [NL] @ option_statement name v) opts)
       @ [NL] @ option_statement name v @ [NL]"
    by (simp add: options_text_def)
  show \<open>option_statement name v =
       ''option ('' @ name @ '') = ''
       @ (case v of StringValue s \<Rightarrow> ''"'' @ s @ ''"'' | _ \<Rightarrow> OptionValue_toString v)\<close>
    by (simp only: option_statement_def option_value_eq)
  show "options_text (opts @ [(name, v)]) @ declarations_text sm (d # ds) =
       concat (map (\<lambda>(name, v). [NL] @ option_statement name v) opts)
       @ [NL] @ option_statement name v @ [NL]
       @ [NL] @ join [NL] (writeDeclaration sm d) @ [NL] @ declarations_text sm ds"
    by (simp add: options_text_def declarations_text_def del: writeDeclaration.simps)
  show "last (option_statement name v) \<noteq> NL"
    using option_statement_last [of name v] by blast
  show "hd (writeDeclaration sm d) \<noteq> ''''"
    using writeDeclaration_block [of sm d] by blast
qed

theorem file_options_statements_witness:
  \<open>writeProtoFile \<lparr>StreamingMode_In = 2, StreamingMode_Out = 1\<rparr>
     \<lparr>file_package = None, file_imports = [],
      file_options = [(''java_package'', StringValue ''com.x''), (''level'', NumberValue 3),
                      (''deprecated'', BooleanValue True)],
      file_declarations = [Message (ProtoMessageDeclaration ''Foo'' [] None)]\<rparr>
   = ''/* Generated by Microsoft TypeSpec */'' @ [NL]
     @ [NL]
     @ ''syntax = "proto3";'' @ [NL]
     @ [NL]
     @ ''option (java_package) = "com.x"'' @ [NL]
     @ ''option (level) = 3'' @ [NL]
     @ ''option (deprecated) = true'' @ [NL]
     @ [NL]
     @ ''message Foo {}'' @ [NL]\<close>
proof -
  let ?sm = "\<lparr>StreamingMode_In = 2, StreamingMode_Out = 1\<rparr>"
  let ?f = "\<lparr>file_package = None, file_imports = [],
      file_options = [(''java_package'', StringValue ''com.x''), (''level'', NumberValue 3),
                      (''deprecated'', BooleanValue True)],
      file_declarations = [Message (ProtoMessageDeclaration ''Foo'' [] None)]\<rparr>"
  have "writeProtoFile ?sm ?f =
     PROTO_HEADER @ package_text (file_package ?f) @ imports_text (file_imports ?f)
     @ options_text (file_options ?f) @ declarations_text ?sm (file_declarations ?f)"
    using file_options_statements [of ?sm ?f] by (rule conjunct1)
  also have \<open>\<dots> = ''/* Generated by Microsoft TypeSpec */'' @ [NL]
     @ [NL]
     @ ''syntax = "proto3";'' @ [NL]
     @ [NL]
     @ ''option (java_package) = "com.x"'' @ [NL]
     @ ''option (level) = 3'' @ [NL]
     @ ''option (deprecated) = true'' @ [NL]
     @ [NL]
     @ ''message Foo {}'' @ [NL]\<close>
    by (simp add: PROTO_HEADER_def package_text_def imports_text_def options_text_def
        option_statement_def declarations_text_def
        number_toString_def nat_toString.simps digit_def)
  finally show ?thesis .
qed

section \<open>Statement terminators\<close>

lemma reservation_line_end:
  "line \<in> set (reservation_lines rs) \<Longrightarrow> line = '''' \<or> last line = CHR '';''"
  by (auto simp add: reservation_lines_def reserved_statement_def Let_def split: if_splits)

lemma writeEnum_lines:
  "writeEnum e =
     [''enum '' @ enum_name e @ '' {'']
     @ (if enum_allowAlias e
        then [''  option allow_alias = true;''] @ (if enum_variants e = [] then [] else [''''])
        else [])
     @ map (\<lambda>(n, i). ''  '' @ n @ '' = '' @ number_toString i @ '';'') (enum_variants e)
     @ [''}'']"
  by (simp add: writeEnum_def flatMap_Item indent_map case_prod_unfold numeral_2_eq_2)

lemma writeService_lines:
  "writeService sm s =
     (if service_operations s = []
      then [''service '' @ service_name s @ '' {}'']
      else [''service '' @ service_name s @ '' {'']
           @ map (\<lambda>r. ''  '' @ writeMethod sm r) (service_operations s)
           @ [''}''])"
  by (simp add: writeService_def Let_def flatMap_Item indent_map writeMethod_not_empty numeral_2_eq_2)

lemma writeProtoFile_statements:
  \<open>writeProtoFile sm file =
     PROTO_HEADER
     @ (case file_package file of
          None \<Rightarrow> []
        | Some p \<Rightarrow> if p = [] then [] else [NL] @ ''package '' @ p @ '';'' @ [NL])
     @ concat (map (\<lambda>path. [NL] @ ''import "'' @ path @ ''";'') (file_imports file))
     @ (if file_imports file = [] then [] else [NL])
     @ concat (map (\<lambda>(name, v). [NL] @ ''option ('' @ name @ '') = '' @ option_value v)
                 (file_options file))
     @ (if file_options file = [] then [] else [NL])
     @ declarations_text sm (file_declarations file)\<close>
  by (simp add: writeProtoFile_eq package_text_def imports_text_def import_statement_def
      options_text_def option_statement_def)

text \<open>
  Claim C10. The option line is exactly \<^verbatim>\<open>option (name) = value\<close>: the name stands in
  parentheses and nothing follows the value, so the line does not end in a semicolon
  (a value ends in a double quote, a digit or a letter). Every package statement, every
  import statement, every reserved line, every field, every variant line of every enum
  and every rpc line, alone or inside a service, ends in \<^verbatim>\<open>;\<close>.
\<close>

theorem option_statement_form:
  \<open>writeProtoFile sm \<lparr>file_package = None, file_imports = [], file_options = [(name, v)],
                       file_declarations = []\<rparr>
     = PROTO_HEADER @ [NL] @ ''option ('' @ name @ '') = '' @ option_value v @ [NL]
   \<and> writeProtoFile sm file =
       PROTO_HEADER
       @ (case file_package file of
            None \<Rightarrow> []
          | Some p \<Rightarrow> if p = [] then [] else [NL] @ ''package '' @ p @ '';'' @ [NL])
       @ concat (map (\<lambda>path. [NL] @ ''import "'' @ path @ ''";'') (file_imports file))
       @ (if file_imports file = [] then [] else [NL])
       @ concat (map (\<lambda>(name, v). [NL] @ ''option ('' @ name @ '') = '' @ option_value v)
                   (file_options file))
       @ (if file_options file = [] then [] else [NL])
       @ declarations_text sm (file_declarations file)
   \<and> option_value v = (case v of StringValue s \<Rightarrow> ''"'' @ s @ ''"'' | _ \<Rightarrow> OptionValue_toString v)
   \<and> last (''option ('' @ name @ '') = '' @ option_value v) \<noteq> CHR '';''
   \<and> (\<forall>line \<in> set (writeReservations m). line \<noteq> '''' \<longrightarrow> last line = CHR '';'')
   \<and> writeDeclaration sm (Field f) = [writeField f]
   \<and> last (writeField f) = CHR '';''
   \<and> writeDeclaration sm (Enum e) =
       [''enum '' @ enum_name e @ '' {'']
       @ (if enum_allowAlias e
          then [''  option allow_alias = true;''] @ (if enum_variants e = [] then [] else [''''])
          else [])
       @ map (\<lambda>(n, i). ''  '' @ n @ '' = '' @ number_toString i @ '';'') (enum_variants e)
       @ [''}'']
   \<and> writeDeclaration sm (Method r) = [writeMethod sm r]
   \<and> last (writeMethod sm r) = CHR '';''
   \<and> writeDeclaration sm (Service s) =
       (if service_operations s = []
        then [''service '' @ service_name s @ '' {}'']
        else [''service '' @ service_name s @ '' {'']
             @ map (\<lambda>r. ''  '' @ writeMethod sm r) (service_operations s)
             @ [''}''])\<close>
proof (intro conjI)
  show \<open>writeProtoFile sm \<lparr>file_package = None, file_imports = [], file_options = [(name, v)],
                       file_declarations = []\<rparr>
     = PROTO_HEADER @ [NL] @ ''option ('' @ name @ '') = '' @ option_value v @ [NL]\<close>
    by (simp add: writeProtoFile_eq package_text_def imports_text_def options_text_def
        option_statement_def declarations_text_def)
  show \<open>writeProtoFile sm file =
       PROTO_HEADER
       @ (case file_package file of
            None \<Rightarrow> []
          | Some p \<Rightarrow> if p = [] then [] else [NL] @ ''package '' @ p @ '';'' @ [NL])
       @ concat (map (\<lambda>path. [NL] @ ''import "'' @ path @ ''";'') (file_imports file))
       @ (if file_imports file = [] then [] else [NL])
       @ concat (map (\<lambda>(name, v). [NL] @ ''option ('' @ name @ '') = '' @ option_value v)
                   (file_options file))
       @ (if file_options file = [] then [] else [NL])
       @ declarations_text sm (file_declarations file)\<close>
    by (rule writeProtoFile_statements)
  show \<open>option_value v = (case v of StringValue s \<Rightarrow> ''"'' @ s @ ''"'' | _ \<Rightarrow> OptionValue_toString v)\<close>
    by (simp only: option_value_eq)
  show "last (''option ('' @ name @ '') = '' @ option_value v) \<noteq> CHR '';''"
    using option_statement_last [of name v] unfolding option_statement_def by blast
  show "\<forall>line \<in> set (writeReservations m). line \<noteq> '''' \<longrightarrow> last line = CHR '';''"
    using reservation_line_end by (cases m) (auto simp add: writeReservations_eq)
  show "writeDeclaration sm (Field f) = [writeField f]"
    by simp
  show "last (writeField f) = CHR '';''"
    by (simp add: writeField_def Let_def)
  show "writeDeclaration sm (Enum e) =
       [''enum '' @ enum_name e @ '' {'']
       @ (if enum_allowAlias e
          then [''  option allow_alias = true;''] @ (if enum_variants e = [] then [] else [''''])
          else [])
       @ map (\<lambda>(n, i). ''  '' @ n @ '' = '' @ number_toString i @ '';'') (enum_variants e)
       @ [''}'']"
    by (simp only: writeDeclaration.simps ProtoDeclaration.case writeEnum_lines)
  show "writeDeclaration sm (Method r) = [writeMethod sm r]"
    by simp
  show "last (writeMethod sm r) = CHR '';''"
    by (simp add: writeMethod_eq)
  show "writeDeclaration sm (Service s) =
       (if service_operations s = []
        then [''service '' @ service_name s @ '' {}'']
        else [''service '' @ service_name s @ '' {'']
             @ map (\<lambda>r. ''  '' @ writeMethod sm r) (service_operations s)
             @ [''}''])"
    by (simp only: writeDeclaration.simps ProtoDeclaration.case writeService_lines)
qed

theorem option_statement_form_witness:
  \<open>writeProtoFile \<lparr>StreamingMode_In = 2, StreamingMode_Out = 1\<rparr>
     \<lparr>file_package = None, file_imports = [],
      file_options = [(''java_package'', StringValue ''com.x'')], file_declarations = []\<rparr>
   = ''/* Generated by Microsoft TypeSpec */'' @ [NL]
     @ [NL]
     @ ''syntax = "proto3";'' @ [NL]
     @ [NL]
     @ ''option (java_package) = "com.x"'' @ [NL]
   \<and> writeReservations (ProtoMessageDeclaration ''M'' [] (Some [ResNumber 7, ResName ''old'']))
     = [''reserved 7;'', ''reserved "old";'', '''']
   \<and> last ''reserved 7;'' = CHR '';''
   \<and> writeDeclaration \<lparr>StreamingMode_In = 2, StreamingMode_Out = 1\<rparr>
       (Enum \<lparr>enum_name = ''E'', enum_allowAlias = False, enum_variants = [(''A'', 0), (''B'', 1)]\<rparr>)
     = [''enum E {'', ''  A = 0;'', ''  B = 1;'', ''}'']\<close>
proof -
  let ?sm = "\<lparr>StreamingMode_In = 2, StreamingMode_Out = 1\<rparr>"
  let ?m = "ProtoMessageDeclaration ''M'' [] (Some [ResNumber 7, ResName ''old''])"
  let ?e = "\<lparr>enum_name = ''E'', enum_allowAlias = False, enum_variants = [(''A'', 0), (''B'', 1)]\<rparr>"
  note form = option_statement_form [where sm = ?sm and name = "''java_package''"
      and v = "StringValue ''com.x''" and m = ?m and e = ?e]
  have reserved: \<open>writeReservations ?m = [''reserved 7;'', ''reserved "old";'', '''']\<close>
    by (simp add: writeReservations_eq reservation_lines_def reserved_statement_def
        List.map_filter_simps number_toString_def nat_toString.simps digit_def)
  have "''reserved 7;'' \<in> set (writeReservations ?m)"
    by (simp add: reserved)
  with form have semicolon: "last ''reserved 7;'' = CHR '';''"
    by blast
  from form have option_line:
    \<open>writeProtoFile ?sm
     \<lparr>file_package = None, file_imports = [],
      file_options = [(''java_package'', StringValue ''com.x'')], file_declarations = []\<rparr>
     = PROTO_HEADER @ [NL] @ ''option ('' @ ''java_package'' @ '') = ''
       @ option_value (StringValue ''com.x'') @ [NL]\<close>
    by (rule conjunct1)
  from form have "writeDeclaration ?sm (Enum ?e) =
       [''enum '' @ enum_name ?e @ '' {'']
       @ (if enum_allowAlias ?e
          then [''  option allow_alias = true;''] @ (if enum_variants ?e = [] then [] else [''''])
          else [])
       @ map (\<lambda>(n, i). ''  '' @ n @ '' = '' @ number_toString i @ '';'') (enum_variants ?e)
       @ [''}'']"
    by blast
  then have variants: "writeDeclaration ?sm (Enum ?e) = [''enum E {'', ''  A = 0;'', ''  B = 1;'', ''}'']"
    by (simp add: number_toString_def nat_toString.simps digit_def del: writeDeclaration.simps)
  show ?thesis
    using option_line reserved semicolon variants
    by (simp add: PROTO_HEADER_def del: writeDeclaration.simps)
qed

end
